theory Spec2Isabelle
  imports Complex_Main
begin

section \<open>Python exceptions\<close>

text \<open>
  The exceptions the modelled functions can raise. \<open>KeyError\<close> stands for a failed
  subscript of a host collection (\<open>owner.controllers[name]\<close>, \<open>bones[bone]\<close>),
  \<open>AttributeError\<close> for an attribute that cannot be read or assigned,
  \<open>UnboundLocalError\<close> for a local variable read before any assignment.
\<close>

datatype py_error =
    KeyError
  | IndexError
  | AttributeError
  | UnboundLocalError
  | LogicControllerNotSupportedError

section \<open>uplogic/utils/objects.py: logic-brick controllers\<close>

text \<open>A sensor brick, as far as the code reads it: its \<open>positive\<close> flag.\<close>

record sensor =
  sensor_name :: string
  positive :: bool

text \<open>A controller brick of the game object: \<open>cont.sensors\<close> and \<open>cont.actuators\<close>.\<close>

record controller =
  controller_name :: string
  sensors :: "sensor list"
  actuators :: "string list"

text \<open>
  The owner: \<open>owner.controllers\<close> (subscripted by name) and the type of each controller
  as \<open>owner.blenderObject.game.controllers[name].type\<close> gives it.
\<close>

record owner =
  controllers :: "string \<rightharpoonup> controller"
  game_controller_type :: "string \<rightharpoonup> string"

definition controller_brick_status :: "owner \<Rightarrow> string \<Rightarrow> py_error + bool" where
  "controller_brick_status ow cname =
     (case controllers ow cname of
        None \<Rightarrow> Inl KeyError
      | Some cont \<Rightarrow>
          (case game_controller_type ow cname of
             None \<Rightarrow> Inl KeyError
           | Some state \<Rightarrow>
               if sensors cont = [] then Inr False
               else if state = ''LOGIC_AND'' then
                 Inr (False \<notin> set (map positive (sensors cont)))
               else if state = ''LOGIC_OR'' then
                 Inr (True \<in> set (map positive (sensors cont)))
               else if state = ''LOGIC_NAND'' then
                 Inr (False \<in> set (map positive (sensors cont)))
               else if state = ''LOGIC_NOR'' then
                 Inr (True \<notin> set (map positive (sensors cont)))
               else if state = ''LOGIC_XOR'' then
                 Inr (count_list (map positive (sensors cont)) True mod 2 \<noteq> 0)
               else if state = ''LOGIC_XNOR'' then
                 (case sensors cont of
                    [] \<Rightarrow> Inl IndexError
                  | s0 # _ \<Rightarrow>
                      (let check = positive s0
                       in Inr (False \<notin> set (map (\<lambda>sens. positive sens = check) (sensors cont)))))
               else Inl LogicControllerNotSupportedError))"

text \<open>\<open>ControllerBrick(tuple)\<close>: the four components and the properties that read them.\<close>

datatype ControllerBrick =
  ControllerBrick controller bool "sensor list" "string list"

fun cb_brick :: "ControllerBrick \<Rightarrow> controller" where
  "cb_brick (ControllerBrick c p ss as) = c"

fun cb_name :: "ControllerBrick \<Rightarrow> string" where
  "cb_name (ControllerBrick c p ss as) = controller_name c"

fun cb_positive :: "ControllerBrick \<Rightarrow> bool" where
  "cb_positive (ControllerBrick c p ss as) = p"

fun cb_sensors :: "ControllerBrick \<Rightarrow> sensor list" where
  "cb_sensors (ControllerBrick c p ss as) = ss"

fun cb_actuators :: "ControllerBrick \<Rightarrow> string list" where
  "cb_actuators (ControllerBrick c p ss as) = as"

definition controller_brick :: "owner \<Rightarrow> string \<Rightarrow> py_error + ControllerBrick" where
  "controller_brick ow cname =
     (case controllers ow cname of
        None \<Rightarrow> Inl KeyError
      | Some cont \<Rightarrow>
          (case game_controller_type ow cname of
             None \<Rightarrow> Inl KeyError
           | Some state \<Rightarrow>
               if sensors cont = [] then
                 Inr (ControllerBrick cont False (sensors cont) (actuators cont))
               else if state = ''LOGIC_AND'' then
                 Inr (ControllerBrick cont
                        (False \<notin> set (map positive (sensors cont)))
                        (sensors cont) (actuators cont))
               else if state = ''LOGIC_OR'' then
                 Inr (ControllerBrick cont
                        (True \<in> set (map positive (sensors cont)))
                        (sensors cont) (actuators cont))
               else if state = ''LOGIC_NAND'' then
                 Inr (ControllerBrick cont
                        (False \<in> set (map positive (sensors cont)))
                        (sensors cont) (actuators cont))
               else if state = ''LOGIC_NOR'' then
                 Inr (ControllerBrick cont
                        (True \<notin> set (map positive (sensors cont)))
                        (sensors cont) (actuators cont))
               else if state = ''LOGIC_XOR'' then
                 Inr (ControllerBrick cont
                        (count_list (map positive (sensors cont)) True mod 2 \<noteq> 0)
                        (sensors cont) (actuators cont))
               else if state = ''LOGIC_XNOR'' then
                 (case sensors cont of
                    [] \<Rightarrow> Inl IndexError
                  | s0 # _ \<Rightarrow>
                      (let check = positive s0
                       in Inr (ControllerBrick cont
                                 (False \<notin> set (map (\<lambda>sens. positive sens = check) (sensors cont)))
                                 (sensors cont) (actuators cont))))
               else Inl LogicControllerNotSupportedError))"

text \<open>The six controller types both functions evaluate.\<close>

definition supported_types :: "string list" where
  "supported_types =
     [''LOGIC_AND'', ''LOGIC_OR'', ''LOGIC_NAND'', ''LOGIC_NOR'', ''LOGIC_XOR'', ''LOGIC_XNOR'']"

section \<open>uplogic/utils/objects.py: the curve wrapper\<close>

text \<open>
  The game object a \<open>ULCurve\<close> wraps (\<open>self.object\<close>): its name, the points of the
  first spline and the bevel depth of its curve data.
\<close>

record curve_object =
  object_name :: string
  spline_points :: "(real \<times> real \<times> real \<times> real) list"
  bevel_depth :: real

text \<open>
  The wrapper and what it can touch: the wrapped object and the console its \<open>print\<close>
  calls write to. \<open>Curve\<close> is the subclass with \<open>_deprecated = False\<close>; it inherits
  every property unchanged.
\<close>

record ULCurve =
  deprecated :: bool
  object :: curve_object
  console :: "string list"

definition name_get :: "ULCurve \<Rightarrow> string" where
  "name_get self = object_name (object self)"

definition name_set :: "ULCurve \<Rightarrow> 'v \<Rightarrow> ULCurve" where
  "name_set self val = self\<lparr>console := console self @ [''ULCurve.name is read-only!'']\<rparr>"

section \<open>uplogic/utils/lights.py: the light wrapper\<close>

text \<open>
  The host objects behind a light, as far as the wrapper reaches into them. Python
  attributes hold any value, so every attribute has the one value type \<open>'v\<close>; each
  attribute is a slot of its own. \<open>light_data\<close> is \<open>blenderObject.data\<close>.
\<close>

record 'v light_data =
  energy :: 'v
  color :: 'v
  use_shadow :: 'v
  shadow_buffer_clip_start :: 'v
  shadow_buffer_bias :: 'v
  use_custom_distance :: 'v
  cutoff_distance :: 'v
  angle :: 'v
  spot_size :: 'v
  spot_blend :: 'v
  shadow_soft_size :: 'v

record 'v blender_object =
  data :: "'v light_data"

record 'v KX_LightObject =
  blenderObject :: "'v blender_object"
  parent :: 'v
  worldPosition :: 'v
  localPosition :: 'v
  worldOrientation :: 'v
  localOrientation :: 'v
  worldScale :: 'v
  localScale :: 'v
  worldLinearVelocity :: 'v
  localLinearVelocity :: 'v
  worldAngularVelocity :: 'v
  localAngularVelocity :: 'v
  worldTransform :: 'v

text \<open>
  \<open>ULLight\<close> holds the wrapped light in \<open>self.game_object\<close>. \<open>Light\<close> is the subclass with
  \<open>_deprecated = False\<close> and inherits every property.
\<close>

record 'v ULLight =
  game_object :: "'v KX_LightObject"



























definition set_parent ::
  "('v KX_LightObject \<Rightarrow> 'v \<Rightarrow> 'v KX_LightObject) \<Rightarrow> 'v ULLight \<Rightarrow> 'v \<Rightarrow> 'v ULLight" where
  "set_parent setParent self parent0 = game_object_update (\<lambda>g. setParent g parent0) self"



























section \<open>mathutils vectors and Python floats\<close>

text \<open>
  \<open>mathutils.Vector\<close> stores 32-bit floats and Python computes with 64-bit floats. Neither
  arithmetic is part of the repository, so the functions of \<open>raycasting.py\<close> take it as a
  parameter: a record of the operations they call, over a type \<open>'v\<close> of vectors and a
  type \<open>'s\<close> of Python numbers. What is proved for every such record holds for the
  operations of the engine, whatever they round to.

  \<open>v_mul\<close> is the product of a vector and a number (in either order), \<open>v_make\<close> is
  \<open>Vector((x, y, z))\<close>, \<open>v_z\<close> reads \<open>.z\<close>, \<open>v_scale_xyz\<close> multiplies the three
  components in place, \<open>s_truthy\<close> is the truth value of a number in a condition and
  \<open>s_lit\<close> a numeric literal of the source.
\<close>

record ('v, 's) arith =
  v_add :: "'v \<Rightarrow> 'v \<Rightarrow> 'v"
  v_sub :: "'v \<Rightarrow> 'v \<Rightarrow> 'v"
  v_mul :: "'v \<Rightarrow> 's \<Rightarrow> 'v"
  v_length :: "'v \<Rightarrow> 's"
  v_normalize :: "'v \<Rightarrow> 'v"
  v_make :: "'s \<Rightarrow> 's \<Rightarrow> 's \<Rightarrow> 'v"
  v_z :: "'v \<Rightarrow> 's"
  v_scale_xyz :: "'v \<Rightarrow> 's \<Rightarrow> 'v"
  s_add :: "'s \<Rightarrow> 's \<Rightarrow> 's"
  s_sub :: "'s \<Rightarrow> 's \<Rightarrow> 's"
  s_mul :: "'s \<Rightarrow> 's \<Rightarrow> 's"
  s_less :: "'s \<Rightarrow> 's \<Rightarrow> bool"
  s_truthy :: "'s \<Rightarrow> bool"
  s_lit :: "rat \<Rightarrow> 's"

text \<open>
  One such record, used to evaluate the functions at concrete inputs: vectors of three
  real numbers with exact arithmetic. It agrees with the float operations wherever those
  are exact. \<open>Vector.normalize()\<close> leaves the zero vector for every vector whose squared
  length is not above \<open>1e-35\<close>, and divides by the length otherwise.
\<close>

datatype Vector = Vector (vx: real) (vy: real) (vz: real)

definition vadd :: "Vector \<Rightarrow> Vector \<Rightarrow> Vector" where
  "vadd a b = Vector (vx a + vx b) (vy a + vy b) (vz a + vz b)"

definition vsub :: "Vector \<Rightarrow> Vector \<Rightarrow> Vector" where
  "vsub a b = Vector (vx a - vx b) (vy a - vy b) (vz a - vz b)"

definition smult :: "real \<Rightarrow> Vector \<Rightarrow> Vector" where
  "smult k a = Vector (k * vx a) (k * vy a) (k * vz a)"

definition vlength :: "Vector \<Rightarrow> real" where
  "vlength a = sqrt (vx a * vx a + vy a * vy a + vz a * vz a)"

definition normalized :: "Vector \<Rightarrow> Vector" where
  "normalized a =
     (if vx a * vx a + vy a * vy a + vz a * vz a > 1 / 10 ^ 35
      then smult (1 / vlength a) a
      else Vector 0 0 0)"

definition exact_arith :: "(Vector, real) arith" where
  "exact_arith =
     \<lparr>v_add = vadd,
      v_sub = vsub,
      v_mul = (\<lambda>a k. smult k a),
      v_length = vlength,
      v_normalize = normalized,
      v_make = Vector,
      v_z = vz,
      v_scale_xyz = (\<lambda>a k. smult k a),
      s_add = (\<lambda>a b. a + b),
      s_sub = (\<lambda>a b. a - b),
      s_mul = (\<lambda>a b. a * b),
      s_less = (\<lambda>a b. a < b),
      s_truthy = (\<lambda>a. a \<noteq> 0),
      s_lit = of_rat\<rparr>"

section \<open>uplogic/utils/raycasting.py\<close>

text \<open>
  An argument that is either a vector or an object with a \<open>worldPosition\<close>;
  \<open>getattr_worldPosition\<close> is \<open>getattr(arg, 'worldPosition', arg)\<close>.
\<close>

datatype 'v point_arg = AsVector 'v | HasWorldPosition 'v

fun getattr_worldPosition :: "'v point_arg \<Rightarrow> 'v" where
  "getattr_worldPosition (AsVector v) = v"
| "getattr_worldPosition (HasWorldPosition wp) = wp"

definition ray_data ::
  "('v, 's) arith \<Rightarrow> 'v point_arg \<Rightarrow> 'v point_arg \<Rightarrow> bool \<Rightarrow> 's \<Rightarrow> 'v \<times> 's \<times> 'v" where
  "ray_data ar origin dest local dist0 =
     (let origin = getattr_worldPosition origin;
          dest = getattr_worldPosition dest;
          dest = (if local then v_add ar origin dest else dest);
          d = v_sub ar dest origin;
          d = v_normalize ar d;
          dist1 = (if s_truthy ar dist0 then dist0 else v_length ar (v_sub ar origin dest));
          dest = v_add ar origin (v_mul ar d dist1)
      in (d, dist1, dest))"

text \<open>
  What the functions of the module read from the running engine. Game objects are
  referred to by an identifier. \<open>rayCast sc caster objto objfrom dist prop xray mask\<close> is
  the engine's \<open>caster.rayCast(objto, objfrom, dist, prop, xray=xray, mask=mask)\<close>: its
  first point is the one the ray is cast to, its second the one it is cast from (so
  \<open>raycast\<close> below passes \<open>dest, origin\<close>). It returns the hit object, the hit point and the
  hit normal, or \<open>(None, None, None)\<close>, here \<open>None\<close>. \<open>material_slots\<close> gives, for each
  slot of the object's \<open>blenderObject\<close>, the name of its material, or \<open>None\<close> for a slot
  that holds no material.
\<close>

type_synonym obj_id = nat

type_synonym 'v hit = "obj_id \<times> 'v \<times> 'v"

record ('v, 's) scene =
  rayCast :: "obj_id \<Rightarrow> 'v \<Rightarrow> 'v \<Rightarrow> 's \<Rightarrow> string \<Rightarrow> bool \<Rightarrow> nat \<Rightarrow> 'v hit option"
  material_slots :: "obj_id \<Rightarrow> string option list"
  getPropertyNames :: "obj_id \<Rightarrow> string list"
  gravity :: 'v
  active_camera :: obj_id
  worldPosition :: "obj_id \<Rightarrow> 'v"
  getScreenVect :: "obj_id \<Rightarrow> 's \<Rightarrow> 's \<Rightarrow> 'v"
  mouse_position :: "'s \<times> 's"

text \<open>A line handed to \<open>render.drawLine\<close>: both ends and the colour.\<close>

type_synonym 'v drawn_line = "'v \<times> 'v \<times> int list"

text \<open>
  \<open>[slot.material.name for slot in bo.material_slots]\<close>: the comprehension reads the name
  of the material of every slot, and \<open>slot.material.name\<close> raises \<open>AttributeError\<close> on a
  slot whose material is \<open>None\<close>.
\<close>

definition material_names :: "('v, 's) scene \<Rightarrow> obj_id \<Rightarrow> py_error + string list" where
  "material_names sc obj =
     (if None \<in> set (material_slots sc obj) then Inl AttributeError
      else Inr (map the (material_slots sc obj)))"

text \<open>
  The condition of the \<open>while\<close> loop of \<open>raycast\<close> without its \<open>leftover_dist > 0\<close> part:
  a conditional expression on \<open>exclude\<close>, over the material names of the hit object's
  slots and its property names. In both branches the comprehension is evaluated first.
\<close>

definition filtered_out ::
  "('v, 's) scene \<Rightarrow> string \<Rightarrow> bool \<Rightarrow> string \<Rightarrow> obj_id \<Rightarrow> py_error + bool" where
  "filtered_out sc material exclude exclude_prop obj =
     (case material_names sc obj of
        Inl e \<Rightarrow> Inl e
      | Inr names \<Rightarrow>
          Inr (if exclude then
                 material \<in> set names \<or> exclude_prop \<in> set (getPropertyNames sc obj)
               else material \<notin> set names))"

text \<open>
  The \<open>while\<close> loop of \<open>raycast\<close>, from the state \<open>(obj, point, normal)\<close> and
  \<open>leftover_dist\<close>. Inside the loop \<open>obj\<close> and \<open>point\<close> are never \<open>None\<close>, so the last
  \<open>else\<close> branch is not reached. The ray cast inside the loop passes no mask: the engine's
  default 65535. No bound on the number of iterations is visible: the value \<open>None\<close>
  of the outer option stands for a loop that does not return.
\<close>

partial_function (option) raycast_loop ::
  "('v, 's) arith \<Rightarrow> ('v, 's) scene \<Rightarrow> 'v \<Rightarrow> 'v \<Rightarrow> string \<Rightarrow> string \<Rightarrow> bool \<Rightarrow> string \<Rightarrow> bool
     \<Rightarrow> 'v hit \<Rightarrow> 's \<Rightarrow> (py_error + 'v hit option) option" where
  "raycast_loop ar sc origin dest prop material exclude exclude_prop xray h leftover_dist =
     (case h of (obj, point, normal) \<Rightarrow>
        (case filtered_out sc material exclude exclude_prop obj of
           Inl e \<Rightarrow> Some (Inl e)
         | Inr filtered \<Rightarrow>
             if filtered \<and> s_less ar (s_lit ar 0) leftover_dist then
               if \<not> xray then Some (Inr None)
               else
                 (case rayCast sc obj dest point leftover_dist prop xray 65535 of
                    None \<Rightarrow> Some (Inr None)
                  | Some h' \<Rightarrow>
                      raycast_loop ar sc origin dest prop material exclude exclude_prop xray h'
                        (s_sub ar leftover_dist (v_length ar (v_sub ar origin point))))
             else Some (Inr (Some h))))"

text \<open>
  \<open>raycast\<close>. \<open>origin\<close> and \<open>dest\<close> are vectors (or lists, which \<open>Vector(...)\<close> converts).
  With \<open>exclude\<close> the property filter moves to \<open>exclude_prop\<close> and \<open>prop\<close> becomes empty;
  without it \<open>exclude_prop\<close> is never read. \<open>exclude_prop in obj\<close> asks the engine
  whether the object has the property: membership in its property names. The result is
  the exception raised, or \<open>(obj, point, normal)\<close> (\<open>None\<close> for three \<open>None\<close>s),
  \<open>direction\<close>, and the lines drawn when \<open>visualize\<close> is set.
\<close>

definition raycast ::
  "('v, 's) arith \<Rightarrow> ('v, 's) scene \<Rightarrow> obj_id \<Rightarrow> 'v \<Rightarrow> 'v \<Rightarrow> 's \<Rightarrow> string \<Rightarrow> string
     \<Rightarrow> bool \<Rightarrow> bool \<Rightarrow> bool \<Rightarrow> nat \<Rightarrow> bool
     \<Rightarrow> (py_error + 'v hit option \<times> 'v \<times> 'v drawn_line list) option" where
  "raycast ar sc caster origin dest distance prop material exclude xray local msk visualize =
     (let exclude_prop = (if exclude then prop else []);
          prop = (if exclude then [] else prop);
          (direction, distance, dest) = ray_data ar (AsVector origin) (AsVector dest) local distance;
          h = rayCast sc caster dest origin distance prop xray msk;
          looped =
            (case h of
               None \<Rightarrow> Some (Inr None)
             | Some (obj, point, normal) \<Rightarrow>
                 if material \<noteq> [] \<or> (exclude \<and> exclude_prop \<in> set (getPropertyNames sc obj))
                 then raycast_loop ar sc origin dest prop material exclude exclude_prop xray
                        (obj, point, normal)
                        (s_sub ar distance (v_length ar (v_sub ar origin point)))
                 else Some (Inr (Some (obj, point, normal))))
      in case looped of
           None \<Rightarrow> None
         | Some (Inl e) \<Rightarrow> Some (Inl e)
         | Some (Inr res) \<Rightarrow>
             Some (Inr (res, direction,
               if visualize then
                 (let line_dest = v_add ar (v_scale_xyz ar direction distance) origin
                  in case res of
                       None \<Rightarrow> [(origin, line_dest, [1, 0, 0, 1])]
                     | Some (obj, point, normal) \<Rightarrow> [(origin, point, [0, 1, 0, 1])])
               else [])))"

definition raycast_mouse ::
  "('v, 's) arith \<Rightarrow> ('v, 's) scene \<Rightarrow> 's \<Rightarrow> string \<Rightarrow> string \<Rightarrow> bool \<Rightarrow> bool \<Rightarrow> nat
     \<Rightarrow> (py_error + 'v hit option \<times> 'v \<times> 'v drawn_line list) option" where
  "raycast_mouse ar sc distance prop material exclude xray msk =
     (let camera = active_camera sc;
          mpos = mouse_position sc;
          vec = v_mul ar (getScreenVect sc camera (fst mpos) (snd mpos)) (s_lit ar 10);
          ray_target = v_sub ar (worldPosition sc camera) vec
      in raycast ar sc camera (worldPosition sc camera) ray_target distance prop material
           exclude xray False msk False)"

text \<open>
  \<open>calc_projectile\<close>, the local function of \<open>raycast_projectile\<close>: it reads the gravity
  of the current scene at every call.
\<close>

definition calc_projectile :: "('v, 's) arith \<Rightarrow> ('v, 's) scene \<Rightarrow> 's \<Rightarrow> 'v \<Rightarrow> 'v \<Rightarrow> 'v" where
  "calc_projectile ar sc t vel pos =
     (let half = s_mul ar (v_z ar (gravity sc)) (s_mul ar (s_mul ar (s_lit ar (1 / 2)) t) t);
          vel = v_mul ar vel t
      in v_add ar (v_add ar (v_make ar (s_lit ar 0) (s_lit ar 0) half) vel) pos)"

text \<open>
  The \<open>while\<close> loop of \<open>raycast_projectile\<close>, from the state \<open>points\<close>, \<open>idx\<close>,
  \<open>total_dist\<close>, \<open>color\<close> (here \<open>colour\<close>) and the variables \<open>(obj, point, normal)\<close>, which
  are unbound (\<open>None\<close>) until the first ray cast and hold its result afterwards. The ray
  cast passes \<open>start\<close> as the engine's first point and \<open>target\<close> as its second, and no
  distance (the engine's default 0). The loop has no bound on its iterations: the outer
  \<open>None\<close> is a loop that does not return.
\<close>

partial_function (option) projectile_loop ::
  "('v, 's) arith \<Rightarrow> ('v, 's) scene \<Rightarrow> obj_id \<Rightarrow> 'v \<Rightarrow> 'v \<Rightarrow> 's \<Rightarrow> 's \<Rightarrow> string \<Rightarrow> bool \<Rightarrow> nat
     \<Rightarrow> 'v list \<Rightarrow> 's \<Rightarrow> 's \<Rightarrow> int list \<Rightarrow> 'v hit option option
     \<Rightarrow> ('v hit option option \<times> 'v list \<times> int list) option" where
  "projectile_loop ar sc caster origin aim distance resolution prop xray msk
       points idx total_dist colour ret =
     (if s_less ar total_dist distance then
        (let target = calc_projectile ar sc idx aim origin;
             start = (if points = [] then origin else last points);
             h = rayCast sc caster start target (s_lit ar 0) prop xray msk;
             total_dist = s_add ar total_dist (v_length ar (v_sub ar target start))
         in case h of
              None \<Rightarrow>
                projectile_loop ar sc caster origin aim distance resolution prop xray msk
                  (points @ [target]) (s_add ar idx resolution) total_dist colour (Some None)
            | Some (obj, point, normal) \<Rightarrow>
                Some (Some (Some (obj, point, normal)), points @ [point], [0, 1, 0]))
      else Some (ret, points, colour))"

text \<open>
  \<open>raycast_projectile\<close>. \<open>aim\<close> is normalised and scaled in place before the loop. When
  the loop body never runs, \<open>obj\<close> is unbound at the \<open>return\<close>. The result is
  \<open>(obj, point, normal)\<close>, \<open>points\<close> and the lines drawn when \<open>visualize\<close> is set.
\<close>

definition raycast_projectile ::
  "('v, 's) arith \<Rightarrow> ('v, 's) scene \<Rightarrow> obj_id \<Rightarrow> 'v point_arg \<Rightarrow> 'v \<Rightarrow> 's \<Rightarrow> 's \<Rightarrow> 's
     \<Rightarrow> string \<Rightarrow> bool \<Rightarrow> bool \<Rightarrow> nat \<Rightarrow> bool
     \<Rightarrow> (py_error + 'v hit option \<times> 'v list \<times> 'v drawn_line list) option" where
  "raycast_projectile ar sc caster origin aim pwr distance resolution prop xray local msk
       visualize =
     (let aim = v_normalize ar aim;
          aim = v_mul ar aim pwr;
          origin = getattr_worldPosition origin;
          origin = (if local then v_add ar origin (worldPosition sc caster) else origin)
      in case projectile_loop ar sc caster origin aim distance resolution prop xray msk
                [] (s_lit ar 0) (s_lit ar 0) [1, 0, 0] None of
           None \<Rightarrow> None
         | Some (ret, points, colour) \<Rightarrow>
             (let drawn = (if visualize
                           then map (\<lambda>(p, q). (p, q, colour)) (zip points (tl points))
                           else [])
              in case ret of
                   None \<Rightarrow> Some (Inl UnboundLocalError)
                 | Some h \<Rightarrow> Some (Inr (h, points, drawn))))"

text \<open>
  The first \<open>n\<close> samples of the trajectory from the parameter \<open>t0\<close> on, the parameter
  advancing by \<open>r\<close> from one sample to the next as \<open>idx += resolution\<close> does.
\<close>

fun samples ::
  "('v, 's) arith \<Rightarrow> ('v, 's) scene \<Rightarrow> 'v \<Rightarrow> 'v \<Rightarrow> 's \<Rightarrow> 's \<Rightarrow> nat \<Rightarrow> 'v list" where
  "samples ar sc org v r t0 0 = []"
| "samples ar sc org v r t0 (Suc n) =
     calc_projectile ar sc t0 v org # samples ar sc org v r (s_add ar t0 r) n"

subsection \<open>Scenes to evaluate the functions on\<close>

text \<open>
  A scene without gravity and with nothing to hit, and a scene whose only obstacle is a
  wall, object 2, filling \<open>2 \<le> x \<le> 3\<close>: a ray that starts left of it and reaches it
  hits its face at \<open>x = 2\<close>, a ray that starts right of it hits its face at \<open>x = 3\<close>.
  The wall has one material slot, with the material \<open>stone\<close>; in the third scene it has
  a second slot that holds no material.
\<close>

definition empty_scene :: "(Vector, real) scene" where
  "empty_scene =
     \<lparr>rayCast = (\<lambda>caster objto objfrom d prop xray m. None),
      material_slots = (\<lambda>ob. []),
      getPropertyNames = (\<lambda>ob. []),
      gravity = Vector 0 0 0,
      active_camera = 0,
      worldPosition = (\<lambda>ob. Vector 0 0 0),
      getScreenVect = (\<lambda>ob sx sy. Vector 0 0 1),
      mouse_position = (1 / 2, 1 / 2)\<rparr>"

definition point_at_x :: "Vector \<Rightarrow> Vector \<Rightarrow> real \<Rightarrow> Vector" where
  "point_at_x a b x0 = vadd a (smult ((x0 - vx a) / (vx b - vx a)) (vsub b a))"

definition wall_rayCast ::
  "obj_id \<Rightarrow> Vector \<Rightarrow> Vector \<Rightarrow> real \<Rightarrow> string \<Rightarrow> bool \<Rightarrow> nat \<Rightarrow> Vector hit option" where
  "wall_rayCast caster objto objfrom d prop xray m =
     (if vx objfrom < 2 \<and> 2 \<le> vx objto
        then Some (2, point_at_x objfrom objto 2, Vector (-1) 0 0)
      else if 3 < vx objfrom \<and> vx objto \<le> 3
        then Some (2, point_at_x objfrom objto 3, Vector 1 0 0)
      else None)"

definition wall_scene :: "(Vector, real) scene" where
  "wall_scene =
     \<lparr>rayCast = wall_rayCast,
      material_slots = (\<lambda>ob. [Some ''stone'']),
      getPropertyNames = (\<lambda>ob. [''solid'']),
      gravity = Vector 0 0 0,
      active_camera = 0,
      worldPosition = (\<lambda>ob. Vector 0 0 0),
      getScreenVect = (\<lambda>ob sx sy. Vector 0 0 1),
      mouse_position = (1 / 2, 1 / 2)\<rparr>"

definition open_slot_scene :: "(Vector, real) scene" where
  "open_slot_scene = wall_scene\<lparr>material_slots := (\<lambda>ob. [Some ''stone'', None])\<rparr>"

section \<open>Action nodes\<close>

text \<open>
  The values a socket can carry: the sentinel \<open>STATUS_WAITING\<close> of a node that is not
  ready, \<open>None\<close>, booleans, numbers, strings and references to game objects.
\<close>

datatype pyval =
    STATUS_WAITING
  | PyNone
  | PyBool bool
  | PyNum real
  | PyStr string
  | PyObj obj_id

text \<open>
  The engine state the nodes act on. A constraint of a pose bone has its influence; a
  pose bone has its constraints and an armature its pose bones, both subscripted by
  name; a game object has its \<open>invalid\<close> flag, its \<open>ortho_scale\<close> and the pose bones of its
  \<open>blenderObject\<close>. The host holds the game objects by reference and the messages logged.
\<close>

record bone_constraint =
  constraint_type :: string
  constraint_influence :: pyval

record pose_bone =
  bone_constraints :: "pyval \<rightharpoonup> bone_constraint"

record kx_object =
  invalid :: bool
  ortho_scale :: pyval
  pose_bones :: "pyval \<rightharpoonup> pose_bone"

record host =
  objects :: "obj_id \<Rightarrow> kx_object"
  logged :: "(pyval \<times> string) list"

text \<open>
  Modelled from the spec: \<open>not_met\<close>, \<open>is_waiting\<close> and \<open>is_invalid\<close> of \<open>uplogic.utils\<close>
  are not among the source files. The spec calls them trivial null and waiting checks of
  readiness and validity: a condition is not met when it is waiting, \<open>None\<close> or false;
  arguments are waiting when one of them is the waiting sentinel; a reference is invalid
  when it is \<open>None\<close>, waiting or empty, or a game object that the engine has freed.
\<close>

definition not_met :: "pyval \<Rightarrow> bool" where
  "not_met c = (c = STATUS_WAITING \<or> c = PyNone \<or> c = PyBool False)"

definition is_waiting :: "pyval list \<Rightarrow> bool" where
  "is_waiting args = (STATUS_WAITING \<in> set args)"

fun is_invalid :: "host \<Rightarrow> pyval \<Rightarrow> bool" where
  "is_invalid h PyNone = True"
| "is_invalid h STATUS_WAITING = True"
| "is_invalid h (PyStr s) = (s = [])"
| "is_invalid h (PyObj ob) = invalid (objects h ob)"
| "is_invalid h (PyBool b) = False"
| "is_invalid h (PyNum x) = False"

text \<open>
  \<open>ULActionNode\<close>, the base of the three nodes: the \<open>condition\<close> socket, the \<open>done\<close>
  attribute (\<open>node_done\<close>, \<open>None\<close> after \<open>__init__\<close>) and the ready mark. Sockets have the type \<open>'i\<close>;
  \<open>get_input\<close>, a method of the base class that is not among the source files, reads the
  value of a socket and is a parameter of each \<open>evaluate\<close>.
  Modelled from the spec: \<open>_set_ready\<close> marks the node as ready and touches nothing else.
\<close>

record 'i ULActionNode =
  condition :: 'i
  node_done :: pyval
  ready :: bool

definition set_ready :: "('i, 'm) ULActionNode_scheme \<Rightarrow> ('i, 'm) ULActionNode_scheme" where
  "set_ready self = self\<lparr>ready := True\<rparr>"

record 'i ULSetCameraOrthoScale = "'i ULActionNode" +
  camera :: 'i
  scale :: 'i

record 'i ULSetBoneConstraintInfluence = "'i ULActionNode" +
  armature :: 'i
  bone :: 'i
  constraint :: 'i
  influence :: 'i

record 'i ULPrintValue = "'i ULActionNode" +
  print_value :: 'i
  msg_type :: string

text \<open>
  Each \<open>evaluate\<close> returns the exception it raised, if any, the node and the host as
  they are when it returns.
\<close>

definition ULSetCameraOrthoScale_evaluate ::
  "('i \<Rightarrow> pyval) \<Rightarrow> 'i ULSetCameraOrthoScale \<Rightarrow> host
     \<Rightarrow> py_error option \<times> 'i ULSetCameraOrthoScale \<times> host" where
  "ULSetCameraOrthoScale_evaluate get_input self0 h =
     (let self = self0\<lparr>node_done := PyBool False\<rparr>;
          condition' = get_input (condition self)
      in if not_met condition' then (None, self, h)
         else
           (let camera' = get_input (camera self);
                scale' = get_input (scale self)
            in if is_waiting [camera', scale'] then (None, self, h)
               else
                 (let self = set_ready self
                  in if is_invalid h camera' then (None, self, h)
                     else
                       (case camera' of
                          PyObj cam \<Rightarrow>
                            (None, self\<lparr>node_done := PyBool True\<rparr>,
                             h\<lparr>objects := (objects h)
                                  (cam := (objects h cam)\<lparr>ortho_scale := scale'\<rparr>)\<rparr>)
                        | _ \<Rightarrow> (Some AttributeError, self, h)))))"

definition ULSetBoneConstraintInfluence_evaluate ::
  "('i \<Rightarrow> pyval) \<Rightarrow> 'i ULSetBoneConstraintInfluence \<Rightarrow> host
     \<Rightarrow> py_error option \<times> 'i ULSetBoneConstraintInfluence \<times> host" where
  "ULSetBoneConstraintInfluence_evaluate get_input self0 h =
     (let self = self0\<lparr>node_done := PyBool False\<rparr>;
          condition' = get_input (condition self)
      in if not_met condition' then (None, self, h)
         else
           (let armature' = get_input (armature self);
                bone' = get_input (bone self);
                constraint' = get_input (constraint self);
                influence' = get_input (influence self)
            in if is_waiting [armature', bone', constraint', influence'] then (None, self, h)
               else
                 (let self = set_ready self
                  in if is_invalid h armature' then (None, self, h)
                     else
                       (case armature' of
                          PyObj arm \<Rightarrow>
                            (case pose_bones (objects h arm) bone' of
                               None \<Rightarrow> (Some KeyError, self, h)
                             | Some pb \<Rightarrow>
                                 (case bone_constraints pb constraint' of
                                    None \<Rightarrow> (Some KeyError, self, h)
                                  | Some con \<Rightarrow>
                                      (None, self\<lparr>node_done := PyBool True\<rparr>,
                                       h\<lparr>objects := (objects h)
                                            (arm := (objects h arm)
                                               \<lparr>pose_bones := (pose_bones (objects h arm))
                                                  (bone' \<mapsto> pb
                                                     \<lparr>bone_constraints := (bone_constraints pb)
                                                        (constraint' \<mapsto> con
                                                           \<lparr>constraint_influence := influence'\<rparr>)\<rparr>)\<rparr>)\<rparr>)))
                        | _ \<Rightarrow> (Some AttributeError, self, h)))))"

text \<open>
  Modelled from the spec: \<open>log\<close> of \<open>uplogic.logging\<close> is not among the source files; it
  prints the value under the message type, here one more entry of \<open>logged\<close>.
\<close>

definition log :: "pyval \<Rightarrow> string \<Rightarrow> host \<Rightarrow> host" where
  "log v mtype h = h\<lparr>logged := logged h @ [(v, mtype)]\<rparr>"

definition ULPrintValue_evaluate ::
  "('i \<Rightarrow> pyval) \<Rightarrow> 'i ULPrintValue \<Rightarrow> host \<Rightarrow> py_error option \<times> 'i ULPrintValue \<times> host" where
  "ULPrintValue_evaluate get_input self0 h =
     (let self = self0\<lparr>node_done := PyBool False\<rparr>;
          condition' = get_input (condition self)
      in if not_met condition' then (None, self, h)
         else
           (let v = get_input (print_value self);
                self = set_ready self;
                h = log v (msg_type self) h
            in (None, self\<lparr>node_done := PyBool True\<rparr>, h)))"

text \<open>
  A host to evaluate the nodes on: object 5 is a camera and an armature with the bone
  \<open>arm\<close>, which has the constraint \<open>ik\<close>; object 6 has been freed.
\<close>

definition sample_constraint :: bone_constraint where
  "sample_constraint = \<lparr>constraint_type = ''IK'', constraint_influence = PyNum 1\<rparr>"

definition sample_bone :: pose_bone where
  "sample_bone = \<lparr>bone_constraints = [PyStr ''ik'' \<mapsto> sample_constraint]\<rparr>"

definition sample_object :: kx_object where
  "sample_object =
     \<lparr>invalid = False, ortho_scale = PyNum 6, pose_bones = [PyStr ''arm'' \<mapsto> sample_bone]\<rparr>"

definition sample_host :: host where
  "sample_host =
     \<lparr>objects = (\<lambda>ob. if ob = 6 then sample_object\<lparr>invalid := True\<rparr> else sample_object),
      logged = []\<rparr>"

section \<open>Theorems\<close>

text \<open>
  Claim C8. For every owner and controller name, the \<open>positive\<close> component of
  \<open>controller_brick\<close> is the value of \<open>controller_brick_status\<close>, and one raises exactly
  when the other does, with the same exception: both give False for a controller with no
  sensors, both evaluate the six supported types, and both raise
  \<open>LogicControllerNotSupportedError\<close> for a controller with sensors of any other type.
\<close>

theorem controller_brick_positive_eq_status:
  "map_sum id cb_positive (controller_brick ow cname) = controller_brick_status ow cname
   \<and> (controllers ow cname = Some cont \<and> game_controller_type ow cname = Some state
        \<longrightarrow>
        (sensors cont = [] \<longrightarrow>
           controller_brick_status ow cname = Inr False
           \<and> map_sum id cb_positive (controller_brick ow cname) = Inr False)
        \<and> (sensors cont \<noteq> [] \<longrightarrow>
             (controller_brick_status ow cname = Inl LogicControllerNotSupportedError)
               = (state \<notin> set supported_types)
           \<and> (controller_brick ow cname = Inl LogicControllerNotSupportedError)
               = (state \<notin> set supported_types)))"
  by (auto simp add: controller_brick_def controller_brick_status_def Let_def supported_types_def
      split: option.splits list.splits)

theorem controller_brick_positive_eq_status_witness:
  "(let s1 = \<lparr>sensor_name = ''a'', positive = True\<rparr>;
        s2 = \<lparr>sensor_name = ''b'', positive = False\<rparr>;
        c = \<lparr>controller_name = ''c'', sensors = [s1, s2], actuators = []\<rparr>;
        ow = \<lparr>controllers = [''c'' \<mapsto> c], game_controller_type = [''c'' \<mapsto> ''LOGIC_XOR'']\<rparr>
    in controller_brick_status ow ''c'' = Inr True
       \<and> map_sum id cb_positive (controller_brick ow ''c'') = Inr True)"
  using controller_brick_positive_eq_status
    [of "\<lparr>controllers = [''c'' \<mapsto> \<lparr>controller_name = ''c'',
            sensors = [\<lparr>sensor_name = ''a'', positive = True\<rparr>,
                       \<lparr>sensor_name = ''b'', positive = False\<rparr>], actuators = []\<rparr>],
          game_controller_type = [''c'' \<mapsto> ''LOGIC_XOR'']\<rparr>" "''c''"
        "\<lparr>controller_name = ''c'',
            sensors = [\<lparr>sensor_name = ''a'', positive = True\<rparr>,
                       \<lparr>sensor_name = ''b'', positive = False\<rparr>], actuators = []\<rparr>"
        "''LOGIC_XOR''"]
  by (simp add: controller_brick_status_def Let_def)

text \<open>
  Claim C10. Assigning to the \<open>name\<close> property of a curve wrapper changes no state of the
  wrapper or of the wrapped object: the name read afterwards is the name read before, the
  object is the same, and the only effect is the warning printed to the console.
\<close>

theorem name_set_changes_nothing:
  "name_get (name_set c v) = name_get c
   \<and> object (name_set c v) = object c
   \<and> deprecated (name_set c v) = deprecated c
   \<and> console (name_set c v) = console c @ [''ULCurve.name is read-only!'']"
  by (simp add: name_get_def name_set_def)

subsection \<open>Exact vectors\<close>

lemma vlength_axis: "vlength (Vector a 0 0) = \<bar>a\<bar>"
  by (simp add: vlength_def)

lemma vlength_axis_z: "vlength (Vector 0 0 a) = \<bar>a\<bar>"
  by (simp add: vlength_def)

lemma vlength_self: "vlength (vsub a a) = 0"
  by (simp add: vsub_def vlength_def)

lemmas exact_ops = exact_arith_def vadd_def vsub_def smult_def

subsection \<open>Ray casting\<close>




text \<open>
  Claim C7. For every argument tuple, \<open>raycast_mouse\<close> returns what \<open>raycast\<close> returns for
  the active camera of the scene as caster, the camera's world position as origin, and as
  target that position minus ten times the camera's screen vector at the mouse position,
  with the same distance, property, material, exclude, xray and mask, and with \<open>local\<close> and
  \<open>visualize\<close> at their defaults.
\<close>

theorem raycast_mouse_is_raycast:
  "raycast_mouse ar sc distance prop material exclude xray msk =
     raycast ar sc (active_camera sc) (worldPosition sc (active_camera sc))
       (v_sub ar (worldPosition sc (active_camera sc))
          (v_mul ar (getScreenVect sc (active_camera sc)
                       (fst (mouse_position sc)) (snd (mouse_position sc)))
             (s_lit ar 10)))
       distance prop material exclude xray False msk False"
  by (simp add: raycast_mouse_def Let_def)

theorem raycast_mouse_is_raycast_witness:
  "raycast_mouse exact_arith empty_scene 100 [] [] False False 65535
     = Some (Inr (None, Vector 0 0 (-1), []))"
  using raycast_mouse_is_raycast [of exact_arith empty_scene 100 "[]" "[]" False False 65535]
  by (simp add: raycast_def empty_scene_def ray_data_def exact_ops normalized_def
      vlength_axis_z)

lemma wall_ray_data:
  "ray_data exact_arith (AsVector (Vector 0 0 0)) (AsVector (Vector 10 0 0)) False 0
     = (Vector 1 0 0, 10, Vector 10 0 0)"
  by (simp add: ray_data_def exact_ops normalized_def vlength_axis)

lemma wall_first_hit:
  "rayCast wall_scene 0 (Vector 10 0 0) (Vector 0 0 0) 10 [] False 65535
     = Some (2, Vector 2 0 0, Vector (-1) 0 0)"
  by (simp add: wall_scene_def wall_rayCast_def point_at_x_def vsub_def vadd_def smult_def)

lemma wall_leftover:
  "s_sub exact_arith 10 (v_length exact_arith (v_sub exact_arith (Vector 0 0 0) (Vector 2 0 0)))
     = 8"
  by (simp add: exact_ops vlength_axis)

lemma exact_positive: "s_less exact_arith (s_lit exact_arith 0) x = (0 < x)"
  by (simp add: exact_arith_def)

text \<open>
  Claim C9, as the code has it. In \<open>raycast\<close> without \<open>exclude\<close>: when a non-empty material
  filter is given, the first ray cast of the engine hits a point, \<open>xray\<close> is off, every
  material slot of the hit object holds a material and none of them is the material
  asked for, and the distance left over (the distance minus the length from the origin
  to the hit point, as the code computes it) is positive, the function returns no
  object, no point and no normal, together with the direction that \<open>ray_data\<close> computed
  (and, with \<open>visualize\<close>, one red line over the whole distance).
\<close>

theorem raycast_material_miss:
  assumes "material \<noteq> []" and "\<not> exclude" and "\<not> xray"
    and "ray_data ar (AsVector origin) (AsVector dest) local distance
           = (direction, dist1, dest1)"
    and "rayCast sc caster dest1 origin dist1 prop xray msk = Some (obj, point, normal)"
    and "None \<notin> set (material_slots sc obj)"
    and "Some material \<notin> set (material_slots sc obj)"
    and "s_less ar (s_lit ar 0) (s_sub ar dist1 (v_length ar (v_sub ar origin point)))"
  shows "raycast ar sc caster origin dest distance prop material exclude xray local msk
           visualize
         = Some (Inr (None, direction,
                 if visualize
                 then [(origin, v_add ar (v_scale_xyz ar direction dist1) origin, [1, 0, 0, 1])]
                 else []))"
proof -
  have names: "material_names sc obj = Inr (map the (material_slots sc obj))"
    using assms(6) by (simp add: material_names_def)
  have "material \<notin> set (map the (material_slots sc obj))"
  proof
    assume "material \<in> set (map the (material_slots sc obj))"
    then obtain slot where slot: "slot \<in> set (material_slots sc obj)" and m: "material = the slot"
      by auto
    have "slot \<noteq> None"
    proof
      assume "slot = None"
      with slot have "None \<in> set (material_slots sc obj)" by simp
      with assms(6) show False by contradiction
    qed
    with m have "slot = Some material" by auto
    with slot assms(7) show False by simp
  qed
  then have filt: "filtered_out sc material False [] obj = Inr True"
    by (simp add: filtered_out_def names)
  have loop: "raycast_loop ar sc origin dest1 prop material False [] False (obj, point, normal)
          (s_sub ar dist1 (v_length ar (v_sub ar origin point))) = Some (Inr None)"
    using assms(8) by (subst raycast_loop.simps) (simp add: filt)
  show ?thesis
    using assms(1-5) loop by (simp add: raycast_def Let_def)
qed

theorem raycast_material_miss_witness:
  "raycast exact_arith wall_scene 0 (Vector 0 0 0) (Vector 10 0 0) 0 [] ''wood''
       False False False 65535 False
     = Some (Inr (None, Vector 1 0 0, []))"
  using raycast_material_miss [where ar = exact_arith and sc = wall_scene and caster = 0
      and origin = "Vector 0 0 0" and dest = "Vector 10 0 0" and distance = 0
      and material = "''wood''" and exclude = False and xray = False and local = False
      and msk = 65535 and visualize = False, OF _ _ _ wall_ray_data wall_first_hit]
  by (simp add: wall_leftover exact_positive) (simp add: wall_scene_def)

text \<open>
  Claim C9 as stated does not hold when \<open>exclude\<close> is set: with the material \<open>wood\<close>, a first
  hit on the wall (slots: \<open>stone\<close>), \<open>xray\<close> off and 8 units left over, every condition of
  the claim holds, and \<open>raycast\<close> returns the wall, the hit point and the normal.
\<close>

theorem raycast_material_miss_counterexample:
  "''wood'' \<noteq> []
   \<and> ray_data exact_arith (AsVector (Vector 0 0 0)) (AsVector (Vector 10 0 0)) False 0
       = (Vector 1 0 0, 10, Vector 10 0 0)
   \<and> rayCast wall_scene 0 (Vector 10 0 0) (Vector 0 0 0) 10 [] False 65535
       = Some (2, Vector 2 0 0, Vector (-1) 0 0)
   \<and> material_names wall_scene 2 = Inr [''stone'']
   \<and> ''wood'' \<notin> set [''stone'']
   \<and> 10 - vlength (vsub (Vector 0 0 0) (Vector 2 0 0)) > 0
   \<and> raycast exact_arith wall_scene 0 (Vector 0 0 0) (Vector 10 0 0) 0 [] ''wood''
         True False False 65535 False
       = Some (Inr (Some (2, Vector 2 0 0, Vector (-1) 0 0), Vector 1 0 0, []))"
proof -
  have names: "material_names wall_scene 2 = Inr [''stone'']"
    by (simp add: material_names_def wall_scene_def)
  have filt: "filtered_out wall_scene ''wood'' True [] 2 = Inr False"
    by (simp add: filtered_out_def names) (simp add: wall_scene_def)
  have loop: "raycast_loop exact_arith wall_scene (Vector 0 0 0) (Vector 10 0 0) [] ''wood''
                True [] False (2, Vector 2 0 0, Vector (-1) 0 0) 8
              = Some (Inr (Some (2, Vector 2 0 0, Vector (-1) 0 0)))"
    by (subst raycast_loop.simps) (simp add: filt)
  have res: "raycast exact_arith wall_scene 0 (Vector 0 0 0) (Vector 10 0 0) 0 [] ''wood''
               True False False 65535 False
             = Some (Inr (Some (2, Vector 2 0 0, Vector (-1) 0 0), Vector 1 0 0, []))"
    using wall_first_hit by (simp add: raycast_def wall_ray_data wall_leftover loop)
  have left: "10 - vlength (vsub (Vector 0 0 0) (Vector 2 0 0)) > 0"
    by (simp add: vsub_def vlength_axis)
  show ?thesis
    using wall_ray_data wall_first_hit names res left by simp
qed

text \<open>
  A material slot that holds no material is outside what the theorem of C9 covers:
  the comprehension over the slots raises \<open>AttributeError\<close> and \<open>raycast\<close> with it.
\<close>

lemma raycast_empty_slot_raises:
  "raycast exact_arith open_slot_scene 0 (Vector 0 0 0) (Vector 10 0 0) 0 [] ''wood''
       False False False 65535 False
     = Some (Inl AttributeError)"
proof -
  have hit: "rayCast open_slot_scene 0 (Vector 10 0 0) (Vector 0 0 0) 10 [] False 65535
     = Some (2, Vector 2 0 0, Vector (-1) 0 0)"
    using wall_first_hit by (simp add: open_slot_scene_def)
  have filt: "filtered_out open_slot_scene ''wood'' False [] 2 = Inl AttributeError"
    by (simp add: filtered_out_def material_names_def open_slot_scene_def)
  have loop: "raycast_loop exact_arith open_slot_scene (Vector 0 0 0) (Vector 10 0 0) [] ''wood''
                False [] False (2, Vector 2 0 0, Vector (-1) 0 0) 8
              = Some (Inl AttributeError)"
    by (subst raycast_loop.simps) (simp add: filt)
  show ?thesis
    using hit by (simp add: raycast_def wall_ray_data wall_leftover loop)
qed

subsection \<open>The projectile loop\<close>

lemma calc_projectile_zero: "calc_projectile exact_arith sc 0 v pos = pos"
  by (cases pos) (simp add: calc_projectile_def exact_ops)

text \<open>
  Whatever the arithmetic, the loop ends in one of three ways: at once, after \<open>n\<close>
  samples without a hit, or with the hit point in the place of the next sample; each
  sample is \<open>calc_projectile\<close> at the parameter accumulated so far.
\<close>

lemma projectile_loop_samples:
  assumes "projectile_loop ar sc caster org v distance r prp xray msk points idx td colour ret
             = Some y"
  shows "\<exists>n. y = (ret, points, colour) \<and> n = 0
           \<or> y = (Some None, points @ samples ar sc org v r idx n, colour) \<and> 0 < n
           \<or> (\<exists>ob point normal.
                 y = (Some (Some (ob, point, normal)),
                      points @ samples ar sc org v r idx n @ [point], [0, 1, 0]))"
proof (rule projectile_loop.raw_induct
    [where P = "\<lambda>ar sc caster org v distance r prp xray msk points idx td colour ret y.
        \<exists>n. y = (ret, points, colour) \<and> n = 0
           \<or> y = (Some None, points @ samples ar sc org v r idx n, colour) \<and> 0 < n
           \<or> (\<exists>ob point normal.
                 y = (Some (Some (ob, point, normal)),
                      points @ samples ar sc org v r idx n @ [point], [0, 1, 0]))", OF _ assms])
  fix f :: "('v, 's) arith \<Rightarrow> ('v, 's) scene \<Rightarrow> obj_id \<Rightarrow> 'v \<Rightarrow> 'v \<Rightarrow> 's \<Rightarrow> 's \<Rightarrow> string
     \<Rightarrow> bool \<Rightarrow> nat \<Rightarrow> 'v list \<Rightarrow> 's \<Rightarrow> 's \<Rightarrow> int list \<Rightarrow> 'v hit option option
     \<Rightarrow> ('v hit option option \<times> 'v list \<times> int list) option"
  fix ar sc caster org v distance r prp xray msk points idx td colour ret y
  assume IH: "\<And>ar sc caster org v distance r prp xray msk points idx td colour ret y.
      f ar sc caster org v distance r prp xray msk points idx td colour ret = Some y
      \<Longrightarrow> \<exists>n. y = (ret, points, colour) \<and> n = 0
           \<or> y = (Some None, points @ samples ar sc org v r idx n, colour) \<and> 0 < n
           \<or> (\<exists>ob point normal.
                 y = (Some (Some (ob, point, normal)),
                      points @ samples ar sc org v r idx n @ [point], [0, 1, 0]))"
  assume body: "(if s_less ar td distance then
        (let target = calc_projectile ar sc idx v org;
             start = (if points = [] then org else last points);
             h = rayCast sc caster start target (s_lit ar 0) prp xray msk;
             total_dist = s_add ar td (v_length ar (v_sub ar target start))
         in case h of
              None \<Rightarrow>
                f ar sc caster org v distance r prp xray msk
                  (points @ [target]) (s_add ar idx r) total_dist colour (Some None)
            | Some (obj, point, normal) \<Rightarrow>
                Some (Some (Some (obj, point, normal)), points @ [point], [0, 1, 0]))
      else Some (ret, points, colour)) = Some y"
  let ?target = "calc_projectile ar sc idx v org"
  let ?start = "if points = [] then org else last points"
  show "\<exists>n. y = (ret, points, colour) \<and> n = 0
           \<or> y = (Some None, points @ samples ar sc org v r idx n, colour) \<and> 0 < n
           \<or> (\<exists>ob point normal.
                 y = (Some (Some (ob, point, normal)),
                      points @ samples ar sc org v r idx n @ [point], [0, 1, 0]))"
  proof (cases "s_less ar td distance")
    case False
    then have "y = (ret, points, colour)" using body by simp
    then show ?thesis by blast
  next
    case True
    show ?thesis
    proof (cases "rayCast sc caster ?start ?target (s_lit ar 0) prp xray msk")
      case (Some h)
      obtain ob point normal where h: "h = (ob, point, normal)" by (cases h)
      have "y = (Some (Some (ob, point, normal)),
                 points @ samples ar sc org v r idx 0 @ [point], [0, 1, 0])"
        using body True Some h by (simp add: Let_def)
      then show ?thesis by blast
    next
      case None
      have "f ar sc caster org v distance r prp xray msk (points @ [?target]) (s_add ar idx r)
              (s_add ar td (v_length ar (v_sub ar ?target ?start))) colour (Some None) = Some y"
        using body True None by (simp add: Let_def)
      from IH [OF this] obtain n where n:
        "y = (Some None, points @ [?target], colour) \<and> n = 0
           \<or> y = (Some None,
                  (points @ [?target]) @ samples ar sc org v r (s_add ar idx r) n, colour)
               \<and> 0 < n
           \<or> (\<exists>ob point normal.
                 y = (Some (Some (ob, point, normal)),
                      (points @ [?target]) @ samples ar sc org v r (s_add ar idx r) n @ [point],
                      [0, 1, 0]))"
        by blast
      from n have "y = (Some None, points @ samples ar sc org v r idx (Suc n), colour)
           \<or> (\<exists>ob point normal.
                 y = (Some (Some (ob, point, normal)),
                      points @ samples ar sc org v r idx (Suc n) @ [point], [0, 1, 0]))"
        by auto
      then show ?thesis by (metis zero_less_Suc)
    qed
  qed
qed

text \<open>
  Claim C2, evaluated where the code departs from it. A projectile leaves the origin
  along the x axis with power 4 and resolution 1 in the scene with the wall. The samples
  are \<open>(0, 0, 0)\<close> and \<open>(4, 0, 0)\<close>. The loop passes the previous sample as the point the
  ray is cast to and the next sample as the point it is cast from, so the ray runs from
  \<open>(4, 0, 0)\<close> back to the origin and the point appended is \<open>(3, 0, 0)\<close>, on the far face
  of the wall; the ray from the previous sample toward the next one hits at \<open>(2, 0, 0)\<close>.
\<close>

theorem raycast_projectile_casts_backwards:
  "raycast_projectile exact_arith wall_scene 0 (AsVector (Vector 0 0 0)) (Vector 1 0 0) 4 100 1 []
       False False 65535 False
     = Some (Inr (Some (2, Vector 3 0 0, Vector 1 0 0), [Vector 0 0 0, Vector 3 0 0], []))
   \<and> rayCast wall_scene 0 (Vector 4 0 0) (Vector 0 0 0) 0 [] False 65535
     = Some (2, Vector 2 0 0, Vector (-1) 0 0)"
proof -
  have aim: "v_mul exact_arith (v_normalize exact_arith (Vector 1 0 0)) 4 = Vector 4 0 0"
    by (simp add: exact_ops normalized_def vlength_axis)
  have none0: "rayCast wall_scene 0 (Vector 0 0 0) (Vector 0 0 0) 0 [] False 65535 = None"
    by (simp add: wall_scene_def wall_rayCast_def)
  have t1: "calc_projectile exact_arith wall_scene 1 (Vector 4 0 0) (Vector 0 0 0) = Vector 4 0 0"
    by (simp add: calc_projectile_def wall_scene_def exact_ops)
  have hit1: "rayCast wall_scene 0 (Vector 0 0 0) (Vector 4 0 0) 0 [] False 65535
              = Some (2, Vector 3 0 0, Vector 1 0 0)"
    by (simp add: wall_scene_def wall_rayCast_def point_at_x_def vsub_def vadd_def smult_def)
  have lit: "s_lit exact_arith 0 = 0" "s_less exact_arith x y = (x < y)"
    "s_add exact_arith x y = x + y" for x y
    by (simp_all add: exact_arith_def)
  have seg0: "v_length exact_arith (v_sub exact_arith (Vector 0 0 0) (Vector 0 0 0)) = 0"
    by (simp add: exact_ops vlength_axis)
  have step2: "projectile_loop exact_arith wall_scene 0 (Vector 0 0 0) (Vector 4 0 0) 100 1 []
                 False 65535 [Vector 0 0 0] 1 0 [1, 0, 0] (Some None)
               = Some (Some (Some (2, Vector 3 0 0, Vector 1 0 0)),
                       [Vector 0 0 0, Vector 3 0 0], [0, 1, 0])"
    by (subst projectile_loop.simps) (simp add: lit t1 hit1)
  have step1: "projectile_loop exact_arith wall_scene 0 (Vector 0 0 0) (Vector 4 0 0) 100 1 []
                 False 65535 [] 0 0 [1, 0, 0] None
               = Some (Some (Some (2, Vector 3 0 0, Vector 1 0 0)),
                       [Vector 0 0 0, Vector 3 0 0], [0, 1, 0])"
    by (subst projectile_loop.simps)
       (simp add: lit calc_projectile_zero none0 seg0 step2)
  have forward: "rayCast wall_scene 0 (Vector 4 0 0) (Vector 0 0 0) 0 [] False 65535
     = Some (2, Vector 2 0 0, Vector (-1) 0 0)"
    by (simp add: wall_scene_def wall_rayCast_def point_at_x_def vsub_def vadd_def smult_def)
  show ?thesis
    by (simp add: raycast_projectile_def aim lit step1 forward)
qed

lemma stationary_loop_never_returns:
  assumes "projectile_loop ar sc caster origin aim distance resolution prp xray msk
             points idx td colour ret = Some y"
  shows "\<not> (ar = exact_arith \<and> sc = empty_scene \<and> resolution = 0 \<and> idx = 0 \<and> td = 0
            \<and> 0 < distance \<and> (points = [] \<or> last points = origin))"
proof (rule projectile_loop.raw_induct
    [where P = "\<lambda>ar sc caster origin aim distance resolution prp xray msk points idx td
                  colour ret y.
        \<not> (ar = exact_arith \<and> sc = empty_scene \<and> resolution = 0 \<and> idx = 0 \<and> td = 0
            \<and> 0 < distance \<and> (points = [] \<or> last points = origin))", OF _ assms])
  fix f :: "(Vector, real) arith \<Rightarrow> (Vector, real) scene \<Rightarrow> obj_id \<Rightarrow> Vector \<Rightarrow> Vector \<Rightarrow> real
     \<Rightarrow> real \<Rightarrow> string \<Rightarrow> bool \<Rightarrow> nat \<Rightarrow> Vector list \<Rightarrow> real \<Rightarrow> real \<Rightarrow> int list
     \<Rightarrow> Vector hit option option
     \<Rightarrow> (Vector hit option option \<times> Vector list \<times> int list) option"
  fix ar sc caster origin aim distance resolution prp xray msk points idx td colour ret y
  assume IH: "\<And>ar sc caster origin aim distance resolution prp xray msk points idx td
                 colour ret y.
      f ar sc caster origin aim distance resolution prp xray msk points idx td colour ret
        = Some y
      \<Longrightarrow> \<not> (ar = exact_arith \<and> sc = empty_scene \<and> resolution = 0 \<and> idx = 0 \<and> td = 0
            \<and> 0 < distance \<and> (points = [] \<or> last points = origin))"
  assume body: "(if s_less ar td distance then
        (let target = calc_projectile ar sc idx aim origin;
             start = (if points = [] then origin else last points);
             h = rayCast sc caster start target (s_lit ar 0) prp xray msk;
             total_dist = s_add ar td (v_length ar (v_sub ar target start))
         in case h of
              None \<Rightarrow>
                f ar sc caster origin aim distance resolution prp xray msk
                  (points @ [target]) (s_add ar idx resolution) total_dist colour (Some None)
            | Some (obj, point, normal) \<Rightarrow>
                Some (Some (Some (obj, point, normal)), points @ [point], [0, 1, 0]))
      else Some (ret, points, colour)) = Some y"
  show "\<not> (ar = exact_arith \<and> sc = empty_scene \<and> resolution = 0 \<and> idx = 0 \<and> td = 0
            \<and> 0 < distance \<and> (points = [] \<or> last points = origin))"
  proof
    assume inv: "ar = exact_arith \<and> sc = empty_scene \<and> resolution = 0 \<and> idx = 0 \<and> td = 0
          \<and> 0 < distance \<and> (points = [] \<or> last points = origin)"
    then have start: "(if points = [] then origin else last points) = origin"
      by auto
    have ops: "s_less exact_arith 0 distance" "s_add exact_arith 0 0 = 0"
      "v_length exact_arith (v_sub exact_arith origin origin) = 0"
      using inv by (simp_all add: exact_arith_def vlength_self)
    have "rayCast empty_scene caster origin origin (s_lit exact_arith 0) prp xray msk = None"
      by (simp add: empty_scene_def)
    then have "f exact_arith empty_scene caster origin aim distance 0 prp xray msk
            (points @ [origin]) 0 0 colour (Some None) = Some y"
      using body inv start ops by (simp add: Let_def calc_projectile_zero)
    then have "\<not> (exact_arith = exact_arith \<and> empty_scene = empty_scene \<and> (0::real) = 0
                  \<and> (0::real) = 0 \<and> (0::real) = 0 \<and> 0 < distance
                  \<and> (points @ [origin] = [] \<or> last (points @ [origin]) = origin))"
      by (rule IH)
    then show False using inv by simp
  qed
qed

text \<open>
  Claim C3, evaluated where the code departs from it. With \<open>resolution = 0\<close> the step
  parameter never advances: every sample is the origin, every segment has length zero
  and \<open>total_dist\<close> stays 0. In a scene with nothing to hit the loop of this call never
  ends, so the call does not return. Every number in this run is 0 or 100.
\<close>

theorem raycast_projectile_never_returns:
  "raycast_projectile exact_arith empty_scene 0 (AsVector (Vector 0 0 0)) (Vector 1 0 0) 1 100 0 []
     False False 65535 False = None"
proof -
  let ?aim = "v_mul exact_arith (v_normalize exact_arith (Vector 1 0 0)) 1"
  have "projectile_loop exact_arith empty_scene 0 (Vector 0 0 0) ?aim 100 0 [] False 65535
          [] 0 0 [1, 0, 0] None = None"
  proof (cases "projectile_loop exact_arith empty_scene 0 (Vector 0 0 0) ?aim 100 0 [] False 65535
          [] 0 0 [1, 0, 0] None")
    case None
    then show ?thesis .
  next
    case (Some y)
    then show ?thesis using stationary_loop_never_returns [OF Some] by simp
  qed
  moreover have "s_lit exact_arith 0 = 0"
    by (simp add: exact_arith_def)
  ultimately show ?thesis
    by (simp add: raycast_projectile_def Let_def)
qed

subsection \<open>Action nodes\<close>

lemmas node_defs = ULSetCameraOrthoScale_evaluate_def ULSetBoneConstraintInfluence_evaluate_def
  ULPrintValue_evaluate_def set_ready_def log_def Let_def

lemma camera_not_met:
  "not_met (g (condition cn)) \<Longrightarrow>
     ULSetCameraOrthoScale_evaluate g cn h = (None, cn\<lparr>node_done := PyBool False\<rparr>, h)"
  by (simp add: node_defs)

lemma camera_waiting:
  "\<not> not_met (g (condition cn)) \<Longrightarrow> is_waiting [g (camera cn), g (scale cn)] \<Longrightarrow>
     ULSetCameraOrthoScale_evaluate g cn h = (None, cn\<lparr>node_done := PyBool False\<rparr>, h)"
  by (simp add: node_defs)

lemma camera_invalid:
  "\<not> not_met (g (condition cn)) \<Longrightarrow> \<not> is_waiting [g (camera cn), g (scale cn)] \<Longrightarrow>
   is_invalid h (g (camera cn)) \<Longrightarrow>
     ULSetCameraOrthoScale_evaluate g cn h
       = (None, cn\<lparr>node_done := PyBool False, ready := True\<rparr>, h)"
  by (simp add: node_defs)

lemma camera_action:
  "\<not> not_met (g (condition cn)) \<Longrightarrow> \<not> is_waiting [g (camera cn), g (scale cn)] \<Longrightarrow>
   \<not> is_invalid h (g (camera cn)) \<Longrightarrow> g (camera cn) = PyObj cam \<Longrightarrow>
     ULSetCameraOrthoScale_evaluate g cn h
       = (None, cn\<lparr>node_done := PyBool True, ready := True\<rparr>,
          h\<lparr>objects := (objects h)(cam := (objects h cam)\<lparr>ortho_scale := g (scale cn)\<rparr>)\<rparr>)"
  by (simp add: node_defs)

lemma camera_done_guard:
  "node_done (fst (snd (ULSetCameraOrthoScale_evaluate g cn h))) = PyBool True \<Longrightarrow>
     \<not> not_met (g (condition cn)) \<and> \<not> is_waiting [g (camera cn), g (scale cn)]
     \<and> \<not> is_invalid h (g (camera cn))"
  by (cases "not_met (g (condition cn))"; cases "is_waiting [g (camera cn), g (scale cn)]";
      cases "is_invalid h (g (camera cn))")
     (simp_all add: camera_not_met camera_waiting camera_invalid)


lemma bone_not_met:
  "not_met (g (condition bn)) \<Longrightarrow>
     ULSetBoneConstraintInfluence_evaluate g bn h = (None, bn\<lparr>node_done := PyBool False\<rparr>, h)"
  by (simp add: node_defs)

lemma bone_waiting:
  "\<not> not_met (g (condition bn)) \<Longrightarrow>
   is_waiting [g (armature bn), g (bone bn), g (constraint bn), g (influence bn)] \<Longrightarrow>
     ULSetBoneConstraintInfluence_evaluate g bn h = (None, bn\<lparr>node_done := PyBool False\<rparr>, h)"
  by (simp add: node_defs)

lemma bone_invalid:
  "\<not> not_met (g (condition bn)) \<Longrightarrow>
   \<not> is_waiting [g (armature bn), g (bone bn), g (constraint bn), g (influence bn)] \<Longrightarrow>
   is_invalid h (g (armature bn)) \<Longrightarrow>
     ULSetBoneConstraintInfluence_evaluate g bn h
       = (None, bn\<lparr>node_done := PyBool False, ready := True\<rparr>, h)"
  by (simp add: node_defs)

lemma bone_action:
  "\<not> not_met (g (condition bn)) \<Longrightarrow>
   \<not> is_waiting [g (armature bn), g (bone bn), g (constraint bn), g (influence bn)] \<Longrightarrow>
   \<not> is_invalid h (g (armature bn)) \<Longrightarrow> g (armature bn) = PyObj arm \<Longrightarrow>
   pose_bones (objects h arm) (g (bone bn)) = Some pb \<Longrightarrow>
   bone_constraints pb (g (constraint bn)) = Some con \<Longrightarrow>
     ULSetBoneConstraintInfluence_evaluate g bn h
       = (None, bn\<lparr>node_done := PyBool True, ready := True\<rparr>,
          h\<lparr>objects := (objects h)
               (arm := (objects h arm)
                  \<lparr>pose_bones := (pose_bones (objects h arm))
                     (g (bone bn) \<mapsto> pb
                        \<lparr>bone_constraints := (bone_constraints pb)
                           (g (constraint bn) \<mapsto> con
                              \<lparr>constraint_influence := g (influence bn)\<rparr>)\<rparr>)\<rparr>)\<rparr>)"
  by (simp add: node_defs)

lemma bone_lookup_fails:
  "\<not> not_met (g (condition bn)) \<Longrightarrow>
   \<not> is_waiting [g (armature bn), g (bone bn), g (constraint bn), g (influence bn)] \<Longrightarrow>
   \<not> is_invalid h (g (armature bn)) \<Longrightarrow> g (armature bn) = PyObj arm \<Longrightarrow>
   pose_bones (objects h arm) (g (bone bn)) = None
   \<or> (\<exists>pb. pose_bones (objects h arm) (g (bone bn)) = Some pb
             \<and> bone_constraints pb (g (constraint bn)) = None) \<Longrightarrow>
     ULSetBoneConstraintInfluence_evaluate g bn h
       = (Some KeyError, bn\<lparr>node_done := PyBool False, ready := True\<rparr>, h)"
  by (auto simp add: node_defs)

lemma bone_done_guard:
  "node_done (fst (snd (ULSetBoneConstraintInfluence_evaluate g bn h))) = PyBool True \<Longrightarrow>
     \<not> not_met (g (condition bn))
     \<and> \<not> is_waiting [g (armature bn), g (bone bn), g (constraint bn), g (influence bn)]
     \<and> \<not> is_invalid h (g (armature bn))"
  by (cases "not_met (g (condition bn))";
      cases "is_waiting [g (armature bn), g (bone bn), g (constraint bn), g (influence bn)]";
      cases "is_invalid h (g (armature bn))")
     (simp_all add: bone_not_met bone_waiting bone_invalid)

lemma print_not_met:
  "not_met (g (condition pn)) \<Longrightarrow>
     ULPrintValue_evaluate g pn h = (None, pn\<lparr>node_done := PyBool False\<rparr>, h)"
  by (simp add: node_defs)

lemma print_action:
  "\<not> not_met (g (condition pn)) \<Longrightarrow>
     ULPrintValue_evaluate g pn h
       = (None, pn\<lparr>node_done := PyBool True, ready := True\<rparr>,
          h\<lparr>logged := logged h @ [(g (print_value pn), msg_type pn)]\<rparr>)"
  by (simp add: node_defs)

text \<open>
  Claim C1, as the code has it. Every \<open>evaluate\<close> first resets \<open>done\<close> to False.
  \<open>ULSetCameraOrthoScale\<close> and \<open>ULSetBoneConstraintInfluence\<close> return early, with the
  host untouched and \<open>done\<close> False, when the condition is not met, when one of the data
  inputs is waiting, or when the object input (the camera, the armature) is invalid;
  when none of these holds and the object, bone and constraint exist, they write the
  one property and set \<open>done\<close> to True, and \<open>done\<close> is True only then.
  \<open>ULPrintValue\<close> returns early only when its condition is not met; otherwise it logs
  the value it read, whatever that is, and sets \<open>done\<close> to True.
\<close>

theorem evaluate_guards:
  fixes cn :: "'i ULSetCameraOrthoScale" and bn :: "'i ULSetBoneConstraintInfluence"
    and pn :: "'i ULPrintValue"
  shows
  "(not_met (g (condition cn)) \<longrightarrow>
      ULSetCameraOrthoScale_evaluate g cn h = (None, cn\<lparr>node_done := PyBool False\<rparr>, h))
   \<and> (\<not> not_met (g (condition cn)) \<and> is_waiting [g (camera cn), g (scale cn)] \<longrightarrow>
      ULSetCameraOrthoScale_evaluate g cn h = (None, cn\<lparr>node_done := PyBool False\<rparr>, h))
   \<and> (\<not> not_met (g (condition cn)) \<and> \<not> is_waiting [g (camera cn), g (scale cn)]
        \<and> is_invalid h (g (camera cn)) \<longrightarrow>
      ULSetCameraOrthoScale_evaluate g cn h
        = (None, cn\<lparr>node_done := PyBool False, ready := True\<rparr>, h))
   \<and> (\<not> not_met (g (condition cn)) \<and> \<not> is_waiting [g (camera cn), g (scale cn)]
        \<and> \<not> is_invalid h (g (camera cn)) \<and> g (camera cn) = PyObj cam \<longrightarrow>
      ULSetCameraOrthoScale_evaluate g cn h
        = (None, cn\<lparr>node_done := PyBool True, ready := True\<rparr>,
           h\<lparr>objects := (objects h)(cam := (objects h cam)\<lparr>ortho_scale := g (scale cn)\<rparr>)\<rparr>))
   \<and> (node_done (fst (snd (ULSetCameraOrthoScale_evaluate g cn h))) = PyBool True \<longrightarrow>
        \<not> not_met (g (condition cn)) \<and> \<not> is_waiting [g (camera cn), g (scale cn)]
        \<and> \<not> is_invalid h (g (camera cn)))
   \<and> (not_met (g (condition bn)) \<longrightarrow>
      ULSetBoneConstraintInfluence_evaluate g bn h = (None, bn\<lparr>node_done := PyBool False\<rparr>, h))
   \<and> (\<not> not_met (g (condition bn))
        \<and> is_waiting [g (armature bn), g (bone bn), g (constraint bn), g (influence bn)] \<longrightarrow>
      ULSetBoneConstraintInfluence_evaluate g bn h = (None, bn\<lparr>node_done := PyBool False\<rparr>, h))
   \<and> (\<not> not_met (g (condition bn))
        \<and> \<not> is_waiting [g (armature bn), g (bone bn), g (constraint bn), g (influence bn)]
        \<and> is_invalid h (g (armature bn)) \<longrightarrow>
      ULSetBoneConstraintInfluence_evaluate g bn h
        = (None, bn\<lparr>node_done := PyBool False, ready := True\<rparr>, h))
   \<and> (\<not> not_met (g (condition bn))
        \<and> \<not> is_waiting [g (armature bn), g (bone bn), g (constraint bn), g (influence bn)]
        \<and> \<not> is_invalid h (g (armature bn)) \<and> g (armature bn) = PyObj arm
        \<and> pose_bones (objects h arm) (g (bone bn)) = Some pb
        \<and> bone_constraints pb (g (constraint bn)) = Some con \<longrightarrow>
      ULSetBoneConstraintInfluence_evaluate g bn h
        = (None, bn\<lparr>node_done := PyBool True, ready := True\<rparr>,
           h\<lparr>objects := (objects h)
                (arm := (objects h arm)
                   \<lparr>pose_bones := (pose_bones (objects h arm))
                      (g (bone bn) \<mapsto> pb
                         \<lparr>bone_constraints := (bone_constraints pb)
                            (g (constraint bn) \<mapsto> con
                               \<lparr>constraint_influence := g (influence bn)\<rparr>)\<rparr>)\<rparr>)\<rparr>))
   \<and> (node_done (fst (snd (ULSetBoneConstraintInfluence_evaluate g bn h))) = PyBool True \<longrightarrow>
        \<not> not_met (g (condition bn))
        \<and> \<not> is_waiting [g (armature bn), g (bone bn), g (constraint bn), g (influence bn)]
        \<and> \<not> is_invalid h (g (armature bn)))
   \<and> (not_met (g (condition pn)) \<longrightarrow>
      ULPrintValue_evaluate g pn h = (None, pn\<lparr>node_done := PyBool False\<rparr>, h))
   \<and> (\<not> not_met (g (condition pn)) \<longrightarrow>
      ULPrintValue_evaluate g pn h
        = (None, pn\<lparr>node_done := PyBool True, ready := True\<rparr>,
           h\<lparr>logged := logged h @ [(g (print_value pn), msg_type pn)]\<rparr>))"
proof -
  have c1: "not_met (g (condition cn)) \<longrightarrow>
      ULSetCameraOrthoScale_evaluate g cn h = (None, cn\<lparr>node_done := PyBool False\<rparr>, h)"
    using camera_not_met by blast
  have c2: "\<not> not_met (g (condition cn)) \<and> is_waiting [g (camera cn), g (scale cn)] \<longrightarrow>
      ULSetCameraOrthoScale_evaluate g cn h = (None, cn\<lparr>node_done := PyBool False\<rparr>, h)"
    using camera_waiting by blast
  have c3: "\<not> not_met (g (condition cn)) \<and> \<not> is_waiting [g (camera cn), g (scale cn)]
        \<and> is_invalid h (g (camera cn)) \<longrightarrow>
      ULSetCameraOrthoScale_evaluate g cn h
        = (None, cn\<lparr>node_done := PyBool False, ready := True\<rparr>, h)"
    using camera_invalid by blast
  have c4: "\<not> not_met (g (condition cn)) \<and> \<not> is_waiting [g (camera cn), g (scale cn)]
        \<and> \<not> is_invalid h (g (camera cn)) \<and> g (camera cn) = PyObj cam \<longrightarrow>
      ULSetCameraOrthoScale_evaluate g cn h
        = (None, cn\<lparr>node_done := PyBool True, ready := True\<rparr>,
           h\<lparr>objects := (objects h)(cam := (objects h cam)\<lparr>ortho_scale := g (scale cn)\<rparr>)\<rparr>)"
    using camera_action by blast
  have c5: "node_done (fst (snd (ULSetCameraOrthoScale_evaluate g cn h))) = PyBool True \<longrightarrow>
        \<not> not_met (g (condition cn)) \<and> \<not> is_waiting [g (camera cn), g (scale cn)]
        \<and> \<not> is_invalid h (g (camera cn))"
    using camera_done_guard by blast
  have b1: "not_met (g (condition bn)) \<longrightarrow>
      ULSetBoneConstraintInfluence_evaluate g bn h = (None, bn\<lparr>node_done := PyBool False\<rparr>, h)"
    using bone_not_met by blast
  have b2: "\<not> not_met (g (condition bn))
        \<and> is_waiting [g (armature bn), g (bone bn), g (constraint bn), g (influence bn)] \<longrightarrow>
      ULSetBoneConstraintInfluence_evaluate g bn h = (None, bn\<lparr>node_done := PyBool False\<rparr>, h)"
    using bone_waiting by blast
  have b3: "\<not> not_met (g (condition bn))
        \<and> \<not> is_waiting [g (armature bn), g (bone bn), g (constraint bn), g (influence bn)]
        \<and> is_invalid h (g (armature bn)) \<longrightarrow>
      ULSetBoneConstraintInfluence_evaluate g bn h
        = (None, bn\<lparr>node_done := PyBool False, ready := True\<rparr>, h)"
    using bone_invalid by blast
  have b4: "\<not> not_met (g (condition bn))
        \<and> \<not> is_waiting [g (armature bn), g (bone bn), g (constraint bn), g (influence bn)]
        \<and> \<not> is_invalid h (g (armature bn)) \<and> g (armature bn) = PyObj arm
        \<and> pose_bones (objects h arm) (g (bone bn)) = Some pb
        \<and> bone_constraints pb (g (constraint bn)) = Some con \<longrightarrow>
      ULSetBoneConstraintInfluence_evaluate g bn h
        = (None, bn\<lparr>node_done := PyBool True, ready := True\<rparr>,
           h\<lparr>objects := (objects h)
                (arm := (objects h arm)
                   \<lparr>pose_bones := (pose_bones (objects h arm))
                      (g (bone bn) \<mapsto> pb
                         \<lparr>bone_constraints := (bone_constraints pb)
                            (g (constraint bn) \<mapsto> con
                               \<lparr>constraint_influence := g (influence bn)\<rparr>)\<rparr>)\<rparr>)\<rparr>)"
    using bone_action by blast
  have b5: "node_done (fst (snd (ULSetBoneConstraintInfluence_evaluate g bn h))) = PyBool True \<longrightarrow>
        \<not> not_met (g (condition bn))
        \<and> \<not> is_waiting [g (armature bn), g (bone bn), g (constraint bn), g (influence bn)]
        \<and> \<not> is_invalid h (g (armature bn))"
    using bone_done_guard by blast
  have p1: "not_met (g (condition pn)) \<longrightarrow>
      ULPrintValue_evaluate g pn h = (None, pn\<lparr>node_done := PyBool False\<rparr>, h)"
    using print_not_met by blast
  have p2: "\<not> not_met (g (condition pn)) \<longrightarrow>
      ULPrintValue_evaluate g pn h
        = (None, pn\<lparr>node_done := PyBool True, ready := True\<rparr>,
           h\<lparr>logged := logged h @ [(g (print_value pn), msg_type pn)]\<rparr>)"
    using print_action by blast
  show ?thesis
    by (intro conjI c1 c2 c3 c4 c5 b1 b2 b3 b4 b5 p1 p2)
qed


theorem evaluate_guards_witness:
  "not_met (id (condition \<lparr>condition = PyBool False, node_done = PyNone, ready = False,
                            camera = PyObj 5, scale = PyNum 2\<rparr>))
   \<and> ULSetCameraOrthoScale_evaluate id
         \<lparr>condition = PyBool False, node_done = PyNone, ready = False,
          camera = PyObj 5, scale = PyNum 2\<rparr> sample_host
       = (None, \<lparr>condition = PyBool False, node_done = PyBool False, ready = False,
                 camera = PyObj 5, scale = PyNum 2\<rparr>, sample_host)
   \<and> is_waiting [id (camera \<lparr>condition = PyBool True, node_done = PyNone, ready = False,
                            camera = PyObj 5, scale = STATUS_WAITING\<rparr>),
                  id (scale \<lparr>condition = PyBool True, node_done = PyNone, ready = False,
                            camera = PyObj 5, scale = STATUS_WAITING\<rparr>)]
   \<and> ULSetCameraOrthoScale_evaluate id
         \<lparr>condition = PyBool True, node_done = PyNone, ready = False,
          camera = PyObj 5, scale = STATUS_WAITING\<rparr> sample_host
       = (None, \<lparr>condition = PyBool True, node_done = PyBool False, ready = False,
                 camera = PyObj 5, scale = STATUS_WAITING\<rparr>, sample_host)
   \<and> is_invalid sample_host (id (armature \<lparr>condition = PyBool True, node_done = PyNone,
          ready = False, armature = PyObj 6, bone = PyStr ''arm'', constraint = PyStr ''ik'',
          influence = PyNum 0\<rparr>))
   \<and> ULSetBoneConstraintInfluence_evaluate id
         \<lparr>condition = PyBool True, node_done = PyNone, ready = False,
          armature = PyObj 6, bone = PyStr ''arm'', constraint = PyStr ''ik'',
          influence = PyNum 0\<rparr> sample_host
       = (None, \<lparr>condition = PyBool True, node_done = PyBool False, ready = True,
                 armature = PyObj 6, bone = PyStr ''arm'', constraint = PyStr ''ik'',
                 influence = PyNum 0\<rparr>, sample_host)
   \<and> \<not> not_met (id (condition \<lparr>condition = PyBool True, node_done = PyNone,
          ready = False, print_value = PyNum 3, msg_type = ''INFO''\<rparr>))
   \<and> ULPrintValue_evaluate id
         \<lparr>condition = PyBool True, node_done = PyNone, ready = False,
          print_value = PyNum 3, msg_type = ''INFO''\<rparr> sample_host
       = (None, \<lparr>condition = PyBool True, node_done = PyBool True, ready = True,
                 print_value = PyNum 3, msg_type = ''INFO''\<rparr>,
          sample_host\<lparr>logged := [(PyNum 3, ''INFO'')]\<rparr>)"
  using evaluate_guards [of id
      "\<lparr>condition = PyBool False, node_done = PyNone, ready = False,
        camera = PyObj 5, scale = PyNum 2\<rparr>" sample_host _
      "\<lparr>condition = PyBool True, node_done = PyNone, ready = False,
        armature = PyObj 6, bone = PyStr ''arm'', constraint = PyStr ''ik'',
        influence = PyNum 0\<rparr>" _ _ _
      "\<lparr>condition = PyBool True, node_done = PyNone, ready = False,
        print_value = PyNum 3, msg_type = ''INFO''\<rparr>"]
    evaluate_guards [of id
      "\<lparr>condition = PyBool True, node_done = PyNone, ready = False,
        camera = PyObj 5, scale = STATUS_WAITING\<rparr>" sample_host _
      "\<lparr>condition = PyBool True, node_done = PyNone, ready = False,
        armature = PyObj 6, bone = PyStr ''arm'', constraint = PyStr ''ik'',
        influence = PyNum 0\<rparr>" _ _ _
      "\<lparr>condition = PyBool True, node_done = PyNone, ready = False,
        print_value = PyNum 3, msg_type = ''INFO''\<rparr>"]
  by (simp add: not_met_def is_waiting_def sample_host_def)

text \<open>
  Claim C1 as stated does not hold for \<open>ULPrintValue\<close>: with the condition met and the
  value input waiting, \<open>evaluate\<close> logs the waiting sentinel and sets \<open>done\<close> to True.
\<close>

theorem print_value_ignores_waiting:
  "is_waiting [id (print_value \<lparr>condition = PyBool True, node_done = PyNone, ready = False,
                                print_value = STATUS_WAITING, msg_type = ''INFO''\<rparr>)]
   \<and> ULPrintValue_evaluate id
         \<lparr>condition = PyBool True, node_done = PyNone, ready = False,
          print_value = STATUS_WAITING, msg_type = ''INFO''\<rparr> sample_host
       = (None, \<lparr>condition = PyBool True, node_done = PyBool True, ready = True,
                 print_value = STATUS_WAITING, msg_type = ''INFO''\<rparr>,
          sample_host\<lparr>logged := [(STATUS_WAITING, ''INFO'')]\<rparr>)"
  by (simp add: node_defs not_met_def is_waiting_def sample_host_def)


text \<open>
  Claim C5. When \<open>ULSetCameraOrthoScale.evaluate\<close> reaches its action, the host afterwards
  is the host before with \<open>ortho_scale\<close> of the camera set to the scale input: the other
  attributes of the camera, every other object and the log are unchanged. When
  \<open>ULSetBoneConstraintInfluence.evaluate\<close> reaches its action on an existing bone and
  constraint, the influence of that constraint is the influence input, and the type of
  the constraint, the other constraints of the bone, the other bones, the other
  attributes of the armature, every other object and the log are unchanged.
\<close>

theorem evaluate_writes_one_property:
  "(\<not> not_met (g (condition cn)) \<and> \<not> is_waiting [g (camera cn), g (scale cn)]
      \<and> \<not> is_invalid h (g (camera cn)) \<and> g (camera cn) = PyObj cam \<longrightarrow>
      (let h' = snd (snd (ULSetCameraOrthoScale_evaluate g cn h))
       in h' = h\<lparr>objects := (objects h)(cam := (objects h cam)\<lparr>ortho_scale := g (scale cn)\<rparr>)\<rparr>
          \<and> ortho_scale (objects h' cam) = g (scale cn)
          \<and> invalid (objects h' cam) = invalid (objects h cam)
          \<and> pose_bones (objects h' cam) = pose_bones (objects h cam)
          \<and> (\<forall>ob. ob \<noteq> cam \<longrightarrow> objects h' ob = objects h ob)
          \<and> logged h' = logged h))
   \<and> (\<not> not_met (g (condition bn))
      \<and> \<not> is_waiting [g (armature bn), g (bone bn), g (constraint bn), g (influence bn)]
      \<and> \<not> is_invalid h (g (armature bn)) \<and> g (armature bn) = PyObj arm
      \<and> pose_bones (objects h arm) (g (bone bn)) = Some pb
      \<and> bone_constraints pb (g (constraint bn)) = Some con \<longrightarrow>
      (let h' = snd (snd (ULSetBoneConstraintInfluence_evaluate g bn h));
           pb' = pb\<lparr>bone_constraints := (bone_constraints pb)
                      (g (constraint bn) \<mapsto> con\<lparr>constraint_influence := g (influence bn)\<rparr>)\<rparr>
       in pose_bones (objects h' arm) (g (bone bn)) = Some pb'
          \<and> bone_constraints pb' (g (constraint bn))
              = Some \<lparr>constraint_type = constraint_type con,
                      constraint_influence = g (influence bn)\<rparr>
          \<and> (\<forall>k. k \<noteq> g (constraint bn) \<longrightarrow> bone_constraints pb' k = bone_constraints pb k)
          \<and> (\<forall>b. b \<noteq> g (bone bn) \<longrightarrow>
                 pose_bones (objects h' arm) b = pose_bones (objects h arm) b)
          \<and> invalid (objects h' arm) = invalid (objects h arm)
          \<and> ortho_scale (objects h' arm) = ortho_scale (objects h arm)
          \<and> (\<forall>ob. ob \<noteq> arm \<longrightarrow> objects h' ob = objects h ob)
          \<and> logged h' = logged h))"
proof -
  have cam_part: "\<not> not_met (g (condition cn)) \<and> \<not> is_waiting [g (camera cn), g (scale cn)]
      \<and> \<not> is_invalid h (g (camera cn)) \<and> g (camera cn) = PyObj cam \<longrightarrow>
      (let h' = snd (snd (ULSetCameraOrthoScale_evaluate g cn h))
       in h' = h\<lparr>objects := (objects h)(cam := (objects h cam)\<lparr>ortho_scale := g (scale cn)\<rparr>)\<rparr>
          \<and> ortho_scale (objects h' cam) = g (scale cn)
          \<and> invalid (objects h' cam) = invalid (objects h cam)
          \<and> pose_bones (objects h' cam) = pose_bones (objects h cam)
          \<and> (\<forall>ob. ob \<noteq> cam \<longrightarrow> objects h' ob = objects h ob)
          \<and> logged h' = logged h)"
  proof (intro impI, elim conjE)
    assume "\<not> not_met (g (condition cn))" and "\<not> is_waiting [g (camera cn), g (scale cn)]"
      and "\<not> is_invalid h (g (camera cn))" and "g (camera cn) = PyObj cam"
    then have eq: "ULSetCameraOrthoScale_evaluate g cn h
        = (None, cn\<lparr>node_done := PyBool True, ready := True\<rparr>,
           h\<lparr>objects := (objects h)(cam := (objects h cam)\<lparr>ortho_scale := g (scale cn)\<rparr>)\<rparr>)"
      by (rule camera_action)
    show "let h' = snd (snd (ULSetCameraOrthoScale_evaluate g cn h))
       in h' = h\<lparr>objects := (objects h)(cam := (objects h cam)\<lparr>ortho_scale := g (scale cn)\<rparr>)\<rparr>
          \<and> ortho_scale (objects h' cam) = g (scale cn)
          \<and> invalid (objects h' cam) = invalid (objects h cam)
          \<and> pose_bones (objects h' cam) = pose_bones (objects h cam)
          \<and> (\<forall>ob. ob \<noteq> cam \<longrightarrow> objects h' ob = objects h ob)
          \<and> logged h' = logged h"
      by (simp add: eq Let_def)
  qed
  have bone_part: "\<not> not_met (g (condition bn))
      \<and> \<not> is_waiting [g (armature bn), g (bone bn), g (constraint bn), g (influence bn)]
      \<and> \<not> is_invalid h (g (armature bn)) \<and> g (armature bn) = PyObj arm
      \<and> pose_bones (objects h arm) (g (bone bn)) = Some pb
      \<and> bone_constraints pb (g (constraint bn)) = Some con \<longrightarrow>
      (let h' = snd (snd (ULSetBoneConstraintInfluence_evaluate g bn h));
           pb' = pb\<lparr>bone_constraints := (bone_constraints pb)
                      (g (constraint bn) \<mapsto> con\<lparr>constraint_influence := g (influence bn)\<rparr>)\<rparr>
       in pose_bones (objects h' arm) (g (bone bn)) = Some pb'
          \<and> bone_constraints pb' (g (constraint bn))
              = Some \<lparr>constraint_type = constraint_type con,
                      constraint_influence = g (influence bn)\<rparr>
          \<and> (\<forall>k. k \<noteq> g (constraint bn) \<longrightarrow> bone_constraints pb' k = bone_constraints pb k)
          \<and> (\<forall>b. b \<noteq> g (bone bn) \<longrightarrow>
                 pose_bones (objects h' arm) b = pose_bones (objects h arm) b)
          \<and> invalid (objects h' arm) = invalid (objects h arm)
          \<and> ortho_scale (objects h' arm) = ortho_scale (objects h arm)
          \<and> (\<forall>ob. ob \<noteq> arm \<longrightarrow> objects h' ob = objects h ob)
          \<and> logged h' = logged h)"
  proof (intro impI, elim conjE)
    assume "\<not> not_met (g (condition bn))"
      and "\<not> is_waiting [g (armature bn), g (bone bn), g (constraint bn), g (influence bn)]"
      and "\<not> is_invalid h (g (armature bn))" and "g (armature bn) = PyObj arm"
      and "pose_bones (objects h arm) (g (bone bn)) = Some pb"
      and "bone_constraints pb (g (constraint bn)) = Some con"
    then have eq: "ULSetBoneConstraintInfluence_evaluate g bn h
       = (None, bn\<lparr>node_done := PyBool True, ready := True\<rparr>,
          h\<lparr>objects := (objects h)
               (arm := (objects h arm)
                  \<lparr>pose_bones := (pose_bones (objects h arm))
                     (g (bone bn) \<mapsto> pb
                        \<lparr>bone_constraints := (bone_constraints pb)
                           (g (constraint bn) \<mapsto> con
                              \<lparr>constraint_influence := g (influence bn)\<rparr>)\<rparr>)\<rparr>)\<rparr>)"
      by (rule bone_action)
    show "let h' = snd (snd (ULSetBoneConstraintInfluence_evaluate g bn h));
           pb' = pb\<lparr>bone_constraints := (bone_constraints pb)
                      (g (constraint bn) \<mapsto> con\<lparr>constraint_influence := g (influence bn)\<rparr>)\<rparr>
       in pose_bones (objects h' arm) (g (bone bn)) = Some pb'
          \<and> bone_constraints pb' (g (constraint bn))
              = Some \<lparr>constraint_type = constraint_type con,
                      constraint_influence = g (influence bn)\<rparr>
          \<and> (\<forall>k. k \<noteq> g (constraint bn) \<longrightarrow> bone_constraints pb' k = bone_constraints pb k)
          \<and> (\<forall>b. b \<noteq> g (bone bn) \<longrightarrow>
                 pose_bones (objects h' arm) b = pose_bones (objects h arm) b)
          \<and> invalid (objects h' arm) = invalid (objects h arm)
          \<and> ortho_scale (objects h' arm) = ortho_scale (objects h arm)
          \<and> (\<forall>ob. ob \<noteq> arm \<longrightarrow> objects h' ob = objects h ob)
          \<and> logged h' = logged h"
      by (simp add: eq Let_def)
  qed
  show ?thesis
    by (intro conjI cam_part bone_part)
qed

theorem evaluate_writes_one_property_witness:
  "ULSetCameraOrthoScale_evaluate id
      \<lparr>condition = PyBool True, node_done = PyNone, ready = False,
       camera = PyObj 5, scale = PyNum 2\<rparr> sample_host
     = (None, \<lparr>condition = PyBool True, node_done = PyBool True, ready = True,
               camera = PyObj 5, scale = PyNum 2\<rparr>,
        sample_host\<lparr>objects := (objects sample_host)
                      (5 := sample_object\<lparr>ortho_scale := PyNum 2\<rparr>)\<rparr>)
   \<and> ortho_scale (objects (snd (snd (ULSetCameraOrthoScale_evaluate id
          \<lparr>condition = PyBool True, node_done = PyNone, ready = False,
           camera = PyObj 5, scale = PyNum 2\<rparr> sample_host))) 5) = PyNum 2
   \<and> pose_bones (objects (snd (snd (ULSetBoneConstraintInfluence_evaluate id
          \<lparr>condition = PyBool True, node_done = PyNone, ready = False,
           armature = PyObj 5, bone = PyStr ''arm'', constraint = PyStr ''ik'',
           influence = PyNum 0\<rparr> sample_host))) 5) (PyStr ''arm'')
       = Some \<lparr>bone_constraints =
                 [PyStr ''ik'' \<mapsto> \<lparr>constraint_type = ''IK'', constraint_influence = PyNum 0\<rparr>]\<rparr>"
  using evaluate_writes_one_property [of id
      "\<lparr>condition = PyBool True, node_done = PyNone, ready = False,
        camera = PyObj 5, scale = PyNum 2\<rparr>" sample_host 5
      "\<lparr>condition = PyBool True, node_done = PyNone, ready = False,
        armature = PyObj 5, bone = PyStr ''arm'', constraint = PyStr ''ik'',
        influence = PyNum 0\<rparr>" 5 sample_bone sample_constraint]
  by (simp add: Let_def not_met_def is_waiting_def sample_host_def sample_object_def
      sample_bone_def sample_constraint_def camera_action)

subsection \<open>The light wrapper\<close>









end
